theory Spec2Isabelle
  imports Main
begin

section \<open>Values shared with the Go libraries\<close>

text \<open>
  A Go \<^verbatim>\<open>[]byte\<close> and a Go \<^verbatim>\<open>string\<close> are both sequences of bytes; \<^typ>\<open>char\<close>
  is a byte.  A \<^verbatim>\<open>nil\<close> slice, error or pointer is \<^term>\<open>None\<close>.
\<close>

type_synonym bytes = "char list"

subsection \<open>Errors\<close>

text \<open>
  The values of Go's \<^verbatim>\<open>error\<close> interface that \<^verbatim>\<open>httpclient.go\<close> can see.
  \<^item> \<open>ErrNotFound\<close> is the package variable \<^verbatim>\<open>ErrNotFound = errors.New("not found")\<close>,
    allocated once; Go compares it by pointer, so it is a constructor of its own.
  \<^item> \<open>Errorf m\<close> is a value freshly allocated by \<^verbatim>\<open>errors.Errorf\<close>, \<open>m\<close> its
    formatted message.
  \<^item> \<open>Wrap c m\<close> is what \<^verbatim>\<open>errors.Wrap(c, m)\<close> and \<^verbatim>\<open>errors.Wrapf(c, ...)\<close>
    allocate: the message \<open>m\<close> around the cause \<open>c\<close>.
  \<^item> \<open>External m\<close> is an error made outside the package (by \<^verbatim>\<open>net/url\<close>, by the
    transport, by a body reader) whose message is \<open>m\<close>.
\<close>

datatype error =
    ErrNotFound
  | Errorf string
  | Wrap error string
  | External string

text \<open>The method \<^verbatim>\<open>Error()\<close>.\<close>

fun Error_text :: "error \<Rightarrow> string" where
  "Error_text ErrNotFound = ''not found''"
| "Error_text (Errorf m) = m"
| "Error_text (Wrap c m) = m @ '': '' @ Error_text c"
| "Error_text (External m) = m"

text \<open>\<^verbatim>\<open>errors.Cause\<close>: follow \<^verbatim>\<open>Cause()\<close> while the error has one.\<close>

fun Cause :: "error \<Rightarrow> error" where
  "Cause (Wrap c m) = Cause c"
| "Cause e = e"

text \<open>The cause chain of an error: the error itself, then the chain of what it wraps.\<close>

fun cause_chain :: "error \<Rightarrow> error list" where
  "cause_chain (Wrap c m) = Wrap c m # cause_chain c"
| "cause_chain e = [e]"

subsection \<open>Contexts\<close>

text \<open>
  \<^verbatim>\<open>context.Context\<close>: the background context and what the caller derives from it
  (a value, a cancellation, a deadline).  There is no nil context in this type.
\<close>

datatype go_context =
    Background
  | WithValue go_context string string
  | WithCancel go_context
  | WithDeadline go_context nat

subsection \<open>Readers\<close>

text \<open>
  An \<^verbatim>\<open>io.Reader\<close> / \<^verbatim>\<open>io.ReadCloser\<close> as the client can observe it: the bytes it
  still delivers, how the delivery ends (\<open>None\<close> is a clean EOF, \<open>Some e\<close> a read
  that fails with \<open>e\<close> after those bytes), and whether \<^verbatim>\<open>Close\<close> has been called.
\<close>

record stream =
  pending :: bytes
  read_error :: "error option"
  closed :: bool

text \<open>
  \<^verbatim>\<open>ioutil.ReadAll\<close> reads until EOF or an error and returns what it read together
  with the error; EOF is reported as a nil error.  The reader is left drained.
\<close>

definition ReadAll :: "stream \<Rightarrow> (bytes option \<times> error option) \<times> stream" where
  "ReadAll r = ((Some (pending r), read_error r), r\<lparr>pending := []\<rparr>)"

definition Close :: "stream \<Rightarrow> stream" where
  "Close r = r\<lparr>closed := True\<rparr>"

subsection \<open>URLs, requests and responses\<close>

text \<open>The fields of \<^verbatim>\<open>url.URL\<close> that parsing and printing use.\<close>

record URL =
  Scheme :: string
  Opaque :: string
  Host :: string
  Path :: string
  ForceQuery :: bool
  RawQuery :: string
  Fragment :: string

text \<open>\<^verbatim>\<open>(*URL).IsAbs\<close>: the URL has a scheme.\<close>

definition IsAbs :: "URL \<Rightarrow> bool" where
  "IsAbs u = (Scheme u \<noteq> [])"

text \<open>
  \<^verbatim>\<open>net/url\<close> is not part of the repository.  The client is verified against any
  parser and printer of URLs; they are the two fields of \<open>netlib\<close>.
\<close>

record netlib =
  url_Parse :: "string \<Rightarrow> error + URL"
  url_String :: "URL \<Rightarrow> string"

text \<open>
  \<^verbatim>\<open>http.Header\<close> is a map from header names to lists of values.  \<^verbatim>\<open>Header.Set\<close>
  replaces whatever the name held by the single value.  (Go first puts the name into
  canonical form; the two names the client sets are canonical already.)
\<close>

type_synonym Header = "string \<rightharpoonup> string list"

definition Header_Set :: "Header \<Rightarrow> string \<Rightarrow> string \<Rightarrow> Header" where
  "Header_Set h k v = h(k \<mapsto> [v])"

record Request =
  Method :: string
  ReqURL :: URL
  ReqHeader :: Header
  ReqBody :: "stream option"
  ReqHost :: string
  ctx :: go_context

record Response =
  StatusCode :: int
  Body :: stream

subsection \<open>Building a request (net/http)\<close>

text \<open>
  \<^verbatim>\<open>validMethod\<close>: a method is a non-empty HTTP token.  The token bytes are those of
  the table \<^verbatim>\<open>isTokenTable\<close>.
\<close>

definition isTokenChar :: "char \<Rightarrow> bool" where
  "isTokenChar c =
     (let n = (of_char c :: nat) in
        (48 \<le> n \<and> n \<le> 57) \<or> (65 \<le> n \<and> n \<le> 90) \<or> (97 \<le> n \<and> n \<le> 122) \<or>
        c \<in> set ''!#$%&*+-.^_`|~'' \<or> n = 39)"

definition validMethod :: "string \<Rightarrow> bool" where
  "validMethod m = (m \<noteq> [] \<and> list_all isTokenChar m)"

text \<open>
  \<^verbatim>\<open>removeEmptyPort\<close> strips a trailing colon from the host: a host that ends with
  \<^verbatim>\<open>:\<close> has an empty port.
\<close>

definition removeEmptyPort :: "string \<Rightarrow> string" where
  "removeEmptyPort h = (if h \<noteq> [] \<and> last h = CHR '':'' then butlast h else h)"

text \<open>
  \<^verbatim>\<open>http.NewRequest(method, url, body)\<close>: an empty method means GET, an invalid method
  or an unparseable URL is an error, and the new request has the background context and
  an empty header.  (The message for an invalid method quotes the method with \<^verbatim>\<open>%q\<close>,
  which also escapes special bytes; plain quotes stand for it here.)
\<close>

definition http_NewRequest ::
  "netlib \<Rightarrow> string \<Rightarrow> string \<Rightarrow> stream option \<Rightarrow> error + Request" where
  "http_NewRequest lib method url body =
     (let method = (if method = [] then ''GET'' else method) in
      if \<not> validMethod method
      then Inl (External (''net/http: invalid method '' @ [CHR 0x22] @ method @ [CHR 0x22]))
      else case url_Parse lib url of
             Inl err \<Rightarrow> Inl err
           | Inr u \<Rightarrow>
               let u = u\<lparr>Host := removeEmptyPort (Host u)\<rparr> in
               Inr \<lparr>Method = method, ReqURL = u, ReqHeader = Map.empty, ReqBody = body,
                    ReqHost = Host u, ctx = Background\<rparr>)"

text \<open>\<^verbatim>\<open>base64.StdEncoding.EncodeToString\<close>: three bytes become four characters, with padding.\<close>

definition encodeStd :: string where
  "encodeStd = ''ABCDEFGHIJKLMNOPQRSTUVWXYZabcdefghijklmnopqrstuvwxyz0123456789+/''"

definition b64 :: "nat \<Rightarrow> char" where
  "b64 n = encodeStd ! (n mod 64)"

fun EncodeToString :: "bytes \<Rightarrow> string" where
  "EncodeToString (a # b # c # rest) =
     (let n = of_char a * 65536 + of_char b * 256 + (of_char c :: nat) in
        b64 (n div 262144) # b64 (n div 4096) # b64 (n div 64) # b64 n # EncodeToString rest)"
| "EncodeToString [a, b] =
     (let n = of_char a * 65536 + of_char b * (256 :: nat) in
        [b64 (n div 262144), b64 (n div 4096), b64 (n div 64), CHR ''='']) "
| "EncodeToString [a] =
     (let n = of_char a * (65536 :: nat) in
        [b64 (n div 262144), b64 (n div 4096), CHR ''='', CHR ''=''])"
| "EncodeToString [] = []"

text \<open>\<^verbatim>\<open>basicAuth\<close> and \<^verbatim>\<open>(*Request).SetBasicAuth\<close>.\<close>

definition basicAuth :: "string \<Rightarrow> string \<Rightarrow> string" where
  "basicAuth username password = EncodeToString (username @ '':'' @ password)"

definition SetBasicAuth :: "Request \<Rightarrow> string \<Rightarrow> string \<Rightarrow> Request" where
  "SetBasicAuth r username password =
     r\<lparr>ReqHeader := Header_Set (ReqHeader r) ''Authorization''
                       (''Basic '' @ basicAuth username password)\<rparr>"

text \<open>
  \<^verbatim>\<open>(*Request).WithContext\<close> does not change the request it is called on: it returns
  a copy of it that carries the context.
\<close>

definition WithContext :: "Request \<Rightarrow> go_context \<Rightarrow> Request" where
  "WithContext r c = r\<lparr>ctx := c\<rparr>"

subsection \<open>Formatting an integer with \<^verbatim>\<open>%d\<close>\<close>

definition digit_char :: "nat \<Rightarrow> char" where
  "digit_char d = ''0123456789'' ! d"

fun digits :: "nat \<Rightarrow> string" where
  "digits n = (if n < 10 then [digit_char n] else digits (n div 10) @ [digit_char (n mod 10)])"

declare digits.simps [simp del]

definition fmt_d :: "int \<Rightarrow> string" where
  "fmt_d i = (if i < 0 then CHR ''-'' # digits (nat (- i)) else digits (nat i))"

section \<open>The client (httpclient.go)\<close>

text \<open>
  \<^verbatim>\<open>RequestHandler\<close> is the interface with the one method \<^verbatim>\<open>Do\<close>.  A handler may
  keep state (the handler of the tests records that it was invoked), so \<^verbatim>\<open>Do\<close> takes
  the handler's state \<open>'h\<close> and returns the new one.  It answers with an error or with
  a response; as for \<^verbatim>\<open>http.Client\<close>, which the interface abstracts, a response
  that comes without an error has a body.  A nil handler, on which the call of
  \<^verbatim>\<open>Do\<close> would panic, is not a value of this type.
\<close>

type_synonym 'h RequestHandler = "'h \<Rightarrow> Request \<Rightarrow> (error + Response) \<times> 'h"

record 'h apiClient =
  url :: URL
  accountSID :: string
  authToken :: string
  Do :: "'h RequestHandler"

text \<open>\<^verbatim>\<open>NewHTTPClient\<close> returns the pair \<^verbatim>\<open>(HTTPClient, error)\<close>.\<close>

definition NewHTTPClient ::
  "netlib \<Rightarrow> string \<Rightarrow> string \<Rightarrow> string \<Rightarrow> 'h RequestHandler
     \<Rightarrow> 'h apiClient option \<times> error option" where
  "NewHTTPClient lib accountSID' authToken' baseURL rh =
     (case url_Parse lib baseURL of
        Inl err \<Rightarrow> (None, Some (Wrap err ''could not parse url''))
      | Inr u \<Rightarrow>
          (Some \<lparr>url = u, accountSID = accountSID', authToken = authToken', Do = rh\<rparr>, None))"

text \<open>
  What a call leaves behind: the two values it returns (\<open>payload\<close>, \<open>failure\<close>), the
  state of the handler, the requests that were handed to \<^verbatim>\<open>Do\<close> in order (\<open>sent\<close>),
  and the response body as the call left it (\<open>body_after\<close>, \<open>None\<close> when there was no
  response).
\<close>

record 'h outcome =
  payload :: "bytes option"
  failure :: "error option"
  handler :: 'h
  sent :: "Request list"
  body_after :: "stream option"

definition StatusNotFound :: int where
  "StatusNotFound = 404"

text \<open>
  \<^verbatim>\<open>(*apiClient).request\<close>.  The deferred \<^verbatim>\<open>resp.Body.Close()\<close> runs on every
  return after the response was obtained.  The value of \<^verbatim>\<open>req.WithContext(ctx)\<close>
  is not used by the source.
\<close>

definition request ::
  "netlib \<Rightarrow> 'h apiClient \<Rightarrow> 'h \<Rightarrow> go_context \<Rightarrow> string \<Rightarrow> string \<Rightarrow> stream option
     \<Rightarrow> 'h outcome" where
  "request lib client h ctx' method path body =
     (case http_NewRequest lib method (url_String lib (url client) @ path) body of
        Inl err \<Rightarrow>
          \<lparr>payload = None, failure = Some (Wrap err ''could not create request''),
           handler = h, sent = [], body_after = None\<rparr>
      | Inr req0 \<Rightarrow>
          let req1 = SetBasicAuth req0 (accountSID client) (authToken client);
              req = req1\<lparr>ReqHeader := Header_Set (ReqHeader req1) ''Content-Type''
                                        ''application/x-www-form-urlencoded''\<rparr>;
              unused = WithContext req ctx'
          in case Do client h req of
               (Inl err, h') \<Rightarrow>
                 \<lparr>payload = None,
                  failure = Some (Wrap err (''could not get a response for ''
                                              @ url_String lib (ReqURL req))),
                  handler = h', sent = [req], body_after = None\<rparr>
             | (Inr resp, h') \<Rightarrow>
                 let statusCode = StatusCode resp in
                 if statusCode < 200 \<or> 400 \<le> statusCode then
                   if statusCode = StatusNotFound then
                     \<lparr>payload = None, failure = Some ErrNotFound,
                      handler = h', sent = [req], body_after = Some (Close (Body resp))\<rparr>
                   else
                     \<lparr>payload = None,
                      failure = Some (Errorf (''unexpected status code: '' @ fmt_d statusCode)),
                      handler = h', sent = [req], body_after = Some (Close (Body resp))\<rparr>
                 else
                   let (res, body') = ReadAll (Body resp) in
                   \<lparr>payload = fst res, failure = snd res,
                    handler = h', sent = [req], body_after = Some (Close body')\<rparr>)"

definition MethodGet :: string where "MethodGet = ''GET''"
definition MethodPost :: string where "MethodPost = ''POST''"
definition MethodDelete :: string where "MethodDelete = ''DELETE''"

definition Get :: "netlib \<Rightarrow> 'h apiClient \<Rightarrow> 'h \<Rightarrow> go_context \<Rightarrow> string \<Rightarrow> 'h outcome" where
  "Get lib client h ctx' path = request lib client h ctx' MethodGet path None"

definition Post ::
  "netlib \<Rightarrow> 'h apiClient \<Rightarrow> 'h \<Rightarrow> go_context \<Rightarrow> string \<Rightarrow> stream option \<Rightarrow> 'h outcome" where
  "Post lib client h ctx' path body = request lib client h ctx' MethodPost path body"

definition Delete :: "netlib \<Rightarrow> 'h apiClient \<Rightarrow> 'h \<Rightarrow> go_context \<Rightarrow> string \<Rightarrow> 'h outcome" where
  "Delete lib client h ctx' path = request lib client h ctx' MethodDelete path None"

subsection \<open>The handler of the tests (httpclient\_test.go)\<close>

record mockRequestHandler =
  requestInvoked :: bool
  requestHandlerFunc :: "Request \<Rightarrow> error + Response"

definition mock_Do :: "mockRequestHandler RequestHandler" where
  "mock_Do m r = (requestHandlerFunc m r, m\<lparr>requestInvoked := True\<rparr>)"

section \<open>A fragment of net/url, for concrete runs\<close>

text \<open>
  The theorems about the client hold for every \<open>netlib\<close>.  To run the client on
  concrete inputs, \<open>go_net\<close> follows \<^verbatim>\<open>url.Parse\<close> and \<^verbatim>\<open>(*URL).String\<close> of Go 1.13
  (the version the README names) on URLs without user information whose host is a name
  with an optional numeric port and whose path and fragment consist of letters, digits
  and \<^verbatim>\<open>- _ . ~ /\<close>: the characters that are neither escaped nor unescaped.  The
  checks that reject a URL for a control character, a missing scheme, a colon in the
  first segment or a malformed \<^verbatim>\<open>%\<close> escape are those of the library; any other input
  is answered by the error \<open>not_modelled\<close>, and no statement below runs on one.
\<close>

definition not_modelled :: error where
  "not_modelled = External ''outside the modelled fragment of net/url''"

definition is_letter :: "char \<Rightarrow> bool" where
  "is_letter c = (let n = (of_char c :: nat) in (65 \<le> n \<and> n \<le> 90) \<or> (97 \<le> n \<and> n \<le> 122))"

definition is_digit :: "char \<Rightarrow> bool" where
  "is_digit c = (let n = (of_char c :: nat) in 48 \<le> n \<and> n \<le> 57)"

definition ishex :: "char \<Rightarrow> bool" where
  "ishex c = (let n = (of_char c :: nat) in
                (48 \<le> n \<and> n \<le> 57) \<or> (65 \<le> n \<and> n \<le> 70) \<or> (97 \<le> n \<and> n \<le> 102))"

definition lower :: "char \<Rightarrow> char" where
  "lower c = (let n = (of_char c :: nat) in if 65 \<le> n \<and> n \<le> 90 then char_of (n + 32) else c)"

definition stringContainsCTLByte :: "string \<Rightarrow> bool" where
  "stringContainsCTLByte s = list_ex (\<lambda>b. (of_char b :: nat) < 32 \<or> (of_char b :: nat) = 127) s"

text \<open>
  \<^verbatim>\<open>getScheme\<close>: \<open>pre\<close> is the part of \<open>rawURL\<close> already scanned, the last argument
  the part still to scan.
\<close>

fun getScheme_loop :: "string \<Rightarrow> string \<Rightarrow> string \<Rightarrow> error + (string \<times> string)" where
  "getScheme_loop rawURL pre [] = Inr ([], rawURL)"
| "getScheme_loop rawURL pre (c # cs) =
     (if is_letter c then getScheme_loop rawURL (pre @ [c]) cs
      else if is_digit c \<or> c = CHR ''+'' \<or> c = CHR ''-'' \<or> c = CHR ''.'' then
        (if pre = [] then Inr ([], rawURL) else getScheme_loop rawURL (pre @ [c]) cs)
      else if c = CHR '':'' then
        (if pre = [] then Inl (External ''missing protocol scheme'') else Inr (pre, cs))
      else Inr ([], rawURL))"

definition getScheme :: "string \<Rightarrow> error + (string \<times> string)" where
  "getScheme rawURL = getScheme_loop rawURL [] rawURL"

text \<open>The first malformed \<^verbatim>\<open>%\<close> escape of a string, as \<^verbatim>\<open>unescape\<close> reports it.\<close>

fun bad_escape :: "string \<Rightarrow> string option" where
  "bad_escape [] = None"
| "bad_escape (c # cs) =
     (if c = CHR ''%'' then
        (case cs of
           a # b # rest \<Rightarrow> if ishex a \<and> ishex b then bad_escape rest else Some (take 3 (c # cs))
         | _ \<Rightarrow> Some (take 3 (c # cs)))
      else bad_escape cs)"

definition EscapeError :: "string \<Rightarrow> error" where
  "EscapeError e = External (''invalid URL escape '' @ [CHR 0x22] @ e @ [CHR 0x22])"

definition plain_char :: "char \<Rightarrow> bool" where
  "plain_char c = (is_letter c \<or> is_digit c \<or> c \<in> set ''-_.~/'')"

definition plain_host :: "string \<Rightarrow> bool" where
  "plain_host a =
     (let name = takeWhile (\<lambda>c. c \<noteq> CHR '':'') a; port = dropWhile (\<lambda>c. c \<noteq> CHR '':'') a in
        list_all (\<lambda>c. is_letter c \<or> is_digit c \<or> c = CHR ''-'' \<or> c = CHR ''.'') name \<and>
        (port = [] \<or> list_all is_digit (tl port)))"

text \<open>\<^verbatim>\<open>setPath\<close> and \<^verbatim>\<open>setFragment\<close> on the fragment: the text is kept as it is.\<close>

definition unescape_plain :: "string \<Rightarrow> error + string" where
  "unescape_plain s =
     (case bad_escape s of
        Some e \<Rightarrow> Inl (EscapeError e)
      | None \<Rightarrow> if list_all plain_char s then Inr s else Inl not_modelled)"

definition hasPrefix :: "string \<Rightarrow> string \<Rightarrow> bool" where
  "hasPrefix s p = (take (length p) s = p)"

text \<open>\<^verbatim>\<open>parse(rawURL, viaRequest = false)\<close>.\<close>

definition parse :: "string \<Rightarrow> error + URL" where
  "parse rawURL =
     (let empty = \<lparr>Scheme = [], Opaque = [], Host = [], Path = [], ForceQuery = False,
                   RawQuery = [], Fragment = []\<rparr> in
      if stringContainsCTLByte rawURL
      then Inl (External ''net/url: invalid control character in URL'')
      else if rawURL = ''*'' then Inr (empty\<lparr>Path := ''*''\<rparr>)
      else case getScheme rawURL of
        Inl err \<Rightarrow> Inl err
      | Inr (scheme, rest0) \<Rightarrow>
          let u1 = empty\<lparr>Scheme := map lower scheme\<rparr>;
              force = (rest0 \<noteq> [] \<and> last rest0 = CHR ''?'' \<and> count_list rest0 (CHR ''?'') = 1);
              rest1 = (if force then butlast rest0 else takeWhile (\<lambda>c. c \<noteq> CHR ''?'') rest0);
              query = (if force then [] else drop 1 (dropWhile (\<lambda>c. c \<noteq> CHR ''?'') rest0));
              u2 = u1\<lparr>ForceQuery := force, RawQuery := query\<rparr>
          in
          if \<not> hasPrefix rest1 ''/'' \<and> Scheme u2 \<noteq> [] then Inr (u2\<lparr>Opaque := rest1\<rparr>)
          else if \<not> hasPrefix rest1 ''/'' \<and>
                  CHR '':'' \<in> set (takeWhile (\<lambda>c. c \<noteq> CHR ''/'') rest1)
          then Inl (External ''first path segment in URL cannot contain colon'')
          else
            let has_authority = ((Scheme u2 \<noteq> [] \<or> \<not> hasPrefix rest1 ''///'') \<and>
                                 hasPrefix rest1 ''//'');
                authority = (if has_authority
                             then takeWhile (\<lambda>c. c \<noteq> CHR ''/'') (drop 2 rest1) else []);
                rest2 = (if has_authority
                         then dropWhile (\<lambda>c. c \<noteq> CHR ''/'') (drop 2 rest1) else rest1)
            in
            if \<not> plain_host authority then Inl not_modelled
            else case unescape_plain rest2 of
                   Inl err \<Rightarrow> Inl err
                 | Inr path \<Rightarrow> Inr (u2\<lparr>Host := authority, Path := path\<rparr>))"

text \<open>
  \<^verbatim>\<open>url.Parse\<close>: the fragment is cut off at the first \<^verbatim>\<open>#\<close> and set afterwards; an
  error is wrapped into a \<^verbatim>\<open>*url.Error\<close>, whose message names the operation and the
  URL.
\<close>

definition url_Error :: "string \<Rightarrow> error \<Rightarrow> error" where
  "url_Error u err = External (''parse '' @ u @ '': '' @ Error_text err)"

definition go_url_Parse :: "string \<Rightarrow> error + URL" where
  "go_url_Parse rawURL =
     (let u = takeWhile (\<lambda>c. c \<noteq> CHR ''#'') rawURL;
          frag = drop 1 (dropWhile (\<lambda>c. c \<noteq> CHR ''#'') rawURL)
      in case parse u of
           Inl err \<Rightarrow> Inl (url_Error u err)
         | Inr parsed \<Rightarrow>
             if frag = [] then Inr parsed
             else case unescape_plain frag of
                    Inl err \<Rightarrow> Inl (url_Error rawURL err)
                  | Inr f \<Rightarrow> Inr (parsed\<lparr>Fragment := f\<rparr>))"

text \<open>\<^verbatim>\<open>(*URL).String\<close>, for a host, path and fragment that need no escaping.\<close>

definition go_url_String :: "URL \<Rightarrow> string" where
  "go_url_String u =
     (let buf0 = (if Scheme u \<noteq> [] then Scheme u @ '':'' else []);
          buf1 =
            (if Opaque u \<noteq> [] then buf0 @ Opaque u
             else
               let b1 = (if Scheme u \<noteq> [] \<or> Host u \<noteq> []
                         then buf0 @ (if Host u \<noteq> [] \<or> Path u \<noteq> [] then ''//'' else []) @ Host u
                         else buf0);
                   b2 = (if Path u \<noteq> [] \<and> hd (Path u) \<noteq> CHR ''/'' \<and> Host u \<noteq> []
                         then b1 @ ''/'' else b1);
                   b3 = (if b2 = [] \<and> CHR '':'' \<in> set (takeWhile (\<lambda>c. c \<noteq> CHR ''/'') (Path u))
                         then b2 @ ''./'' else b2)
               in b3 @ Path u);
          buf2 = (if ForceQuery u \<or> RawQuery u \<noteq> [] then buf1 @ ''?'' @ RawQuery u else buf1)
      in if Fragment u \<noteq> [] then buf2 @ ''#'' @ Fragment u else buf2)"

definition go_net :: netlib where
  "go_net = \<lparr>url_Parse = go_url_Parse, url_String = go_url_String\<rparr>"

section \<open>Calls through the interface\<close>

text \<open>
  The interface \<^verbatim>\<open>HTTPClient\<close> has the three methods \<^verbatim>\<open>Get\<close>, \<^verbatim>\<open>Post\<close> and
  \<^verbatim>\<open>Delete\<close>.  A \<open>call\<close> names one of them, with the body reader that \<^verbatim>\<open>Post\<close>
  takes (it may be nil); \<open>invoke\<close> dispatches it.
\<close>

datatype call = CallGet | CallPost "stream option" | CallDelete

definition invoke ::
  "netlib \<Rightarrow> 'h apiClient \<Rightarrow> 'h \<Rightarrow> go_context \<Rightarrow> call \<Rightarrow> string \<Rightarrow> 'h outcome" where
  "invoke lib client h ctx' c path =
     (case c of
        CallGet \<Rightarrow> Get lib client h ctx' path
      | CallPost body \<Rightarrow> Post lib client h ctx' path body
      | CallDelete \<Rightarrow> Delete lib client h ctx' path)"

text \<open>The method name and the body that a call passes to \<open>request\<close>.\<close>

fun method_of :: "call \<Rightarrow> string" where
  "method_of CallGet = ''GET''"
| "method_of (CallPost body) = ''POST''"
| "method_of CallDelete = ''DELETE''"

fun body_of :: "call \<Rightarrow> stream option" where
  "body_of (CallPost body) = body"
| "body_of c = None"

text \<open>
  The request that \<open>request\<close> hands to the handler when the URL parses to \<open>u\<close>:
  lines 67 to 76 of the source, in one value.
\<close>

definition prepared :: "'h apiClient \<Rightarrow> string \<Rightarrow> stream option \<Rightarrow> URL \<Rightarrow> Request" where
  "prepared client method body u =
     \<lparr>Method = method, ReqURL = u\<lparr>Host := removeEmptyPort (Host u)\<rparr>,
      ReqHeader = [''Authorization'' \<mapsto> [''Basic '' @ basicAuth (accountSID client) (authToken client)],
                   ''Content-Type'' \<mapsto> [''application/x-www-form-urlencoded'']],
      ReqBody = body, ReqHost = removeEmptyPort (Host u), ctx = Background\<rparr>"

section \<open>The fixtures of the tests (httpclient\_test.go)\<close>

definition acc :: string where "acc = ''acc''"
definition auth :: string where "auth = ''auth''"
definition baseURL :: string where "baseURL = ''https://twilio.com/v2''"

text \<open>\<^verbatim>\<open>ioutil.NopCloser(strings.NewReader("{}"))\<close>.\<close>

definition braces :: stream where
  "braces = \<lparr>pending = ''{}'', read_error = None, closed = False\<rparr>"

text \<open>A handler function that answers every request with the given status and body.\<close>

definition respond :: "int \<Rightarrow> stream \<Rightarrow> Request \<Rightarrow> error + Response" where
  "respond code body r = Inr \<lparr>StatusCode = code, Body = body\<rparr>"

text \<open>The handler function of the test ``unsuccessful request with err''.\<close>

definition respErr :: error where
  "respErr = Errorf ''test''"

definition refuse :: "Request \<Rightarrow> error + Response" where
  "refuse r = Inl respErr"

text \<open>\<^verbatim>\<open>setup\<close>: a fresh mock handler, and the client built on the base URL.\<close>

definition mocked :: "(Request \<Rightarrow> error + Response) \<Rightarrow> mockRequestHandler" where
  "mocked f = \<lparr>requestInvoked = False, requestHandlerFunc = f\<rparr>"

definition twilio_v2 :: URL where
  "twilio_v2 = \<lparr>Scheme = ''https'', Opaque = [], Host = ''twilio.com'', Path = ''/v2'',
                 ForceQuery = False, RawQuery = [], Fragment = []\<rparr>"

definition test_client :: "mockRequestHandler apiClient" where
  "test_client = \<lparr>url = twilio_v2, accountSID = acc, authToken = auth, Do = mock_Do\<rparr>"

text \<open>The request that the handler sees for \<^verbatim>\<open>client.Get(ctx, "/get")\<close>.\<close>

definition get_request :: Request where
  "get_request =
     \<lparr>Method = ''GET'',
      ReqURL = twilio_v2\<lparr>Path := ''/v2/get''\<rparr>,
      ReqHeader = [''Authorization'' \<mapsto> [''Basic YWNjOmF1dGg=''],
                   ''Content-Type'' \<mapsto> [''application/x-www-form-urlencoded'']],
      ReqBody = None, ReqHost = ''twilio.com'', ctx = Background\<rparr>"

text \<open>A body whose delivery breaks off after the first byte.\<close>

definition broken :: stream where
  "broken = \<lparr>pending = ''{'', read_error = Some (External ''unexpected EOF''), closed = False\<rparr>"

text \<open>
  Two more base URLs, for runs beyond the tests: one without a scheme, and one with the
  scheme in capitals and an empty port.
\<close>

definition relative_v2 :: URL where
  "relative_v2 = \<lparr>Scheme = [], Opaque = [], Host = [], Path = ''/v2'',
                   ForceQuery = False, RawQuery = [], Fragment = []\<rparr>"

definition loud_client :: "mockRequestHandler apiClient" where
  "loud_client = \<lparr>url = twilio_v2\<lparr>Host := ''twilio.com:''\<rparr>, accountSID = acc,
                   authToken = auth, Do = mock_Do\<rparr>"

text \<open>The value of a decimal numeral, to read back what \<open>fmt_d\<close> prints.\<close>

definition dec_value :: "string \<Rightarrow> nat" where
  "dec_value s = foldl (\<lambda>a c. 10 * a + (of_char c - 48)) 0 s"

section \<open>Properties\<close>

subsection \<open>Auxiliary facts\<close>

lemma invoke_request:
  "invoke lib client h ctx' c path = request lib client h ctx' (method_of c) path (body_of c)"
  by (cases c) (simp_all add: invoke_def Get_def Post_def Delete_def
      MethodGet_def MethodPost_def MethodDelete_def)

lemma validMethod_method_of: "validMethod (method_of c)"
  by (cases c) (simp_all add: validMethod_def isTokenChar_def)

lemma method_of_nonempty: "method_of c \<noteq> []"
  by (cases c) simp_all

lemma NewRequest_method_of:
  "http_NewRequest lib (method_of c) target body =
     (case url_Parse lib target of
        Inl err \<Rightarrow> Inl err
      | Inr u \<Rightarrow> Inr \<lparr>Method = method_of c, ReqURL = u\<lparr>Host := removeEmptyPort (Host u)\<rparr>,
                     ReqHeader = Map.empty, ReqBody = body,
                     ReqHost = removeEmptyPort (Host u), ctx = Background\<rparr>)"
  by (simp add: http_NewRequest_def validMethod_method_of method_of_nonempty Let_def
      split: sum.splits)

lemma invoke_parse_error:
  assumes "url_Parse lib (url_String lib (url client) @ path) = Inl err"
  shows "invoke lib client h ctx' c path =
           \<lparr>payload = None, failure = Some (Wrap err ''could not create request''),
            handler = h, sent = [], body_after = None\<rparr>"
  by (simp add: invoke_request request_def NewRequest_method_of assms)

lemma invoke_parsed:
  assumes "url_Parse lib (url_String lib (url client) @ path) = Inr u"
  shows "invoke lib client h ctx' c path =
     (let req = prepared client (method_of c) (body_of c) u in
      case Do client h req of
        (Inl err, h') \<Rightarrow>
          \<lparr>payload = None,
           failure = Some (Wrap err (''could not get a response for ''
                                       @ url_String lib (ReqURL req))),
           handler = h', sent = [req], body_after = None\<rparr>
      | (Inr resp, h') \<Rightarrow>
          if StatusCode resp < 200 \<or> 400 \<le> StatusCode resp then
            if StatusCode resp = 404 then
              \<lparr>payload = None, failure = Some ErrNotFound,
               handler = h', sent = [req], body_after = Some (Close (Body resp))\<rparr>
            else
              \<lparr>payload = None,
               failure = Some (Errorf (''unexpected status code: '' @ fmt_d (StatusCode resp))),
               handler = h', sent = [req], body_after = Some (Close (Body resp))\<rparr>
          else
            \<lparr>payload = Some (pending (Body resp)), failure = read_error (Body resp),
             handler = h', sent = [req],
             body_after = Some ((Body resp)\<lparr>pending := [], closed := True\<rparr>)\<rparr>)"
  by (simp add: invoke_request request_def NewRequest_method_of assms prepared_def
      SetBasicAuth_def Header_Set_def WithContext_def StatusNotFound_def ReadAll_def Close_def
      Let_def split: sum.splits prod.splits)

lemma invoke_sent_cases:
  "(\<exists>err. url_Parse lib (url_String lib (url client) @ path) = Inl err \<and>
          sent (invoke lib client h ctx' c path) = []) \<or>
   (\<exists>u. url_Parse lib (url_String lib (url client) @ path) = Inr u \<and>
        sent (invoke lib client h ctx' c path) = [prepared client (method_of c) (body_of c) u])"
proof (cases "url_Parse lib (url_String lib (url client) @ path)")
  case (Inl err)
  then show ?thesis by (simp add: invoke_parse_error)
next
  case (Inr u)
  then show ?thesis
    by (simp add: invoke_parsed Let_def split: sum.splits prod.splits)
qed

lemma invoke_sentD:
  assumes "sent (invoke lib client h ctx' c path) = [req]"
  shows "\<exists>u. url_Parse lib (url_String lib (url client) @ path) = Inr u \<and>
             req = prepared client (method_of c) (body_of c) u"
  using invoke_sent_cases [of lib client path h ctx' c] assms by auto

lemma digit_char_value: "d < 10 \<Longrightarrow> (of_char (digit_char d) :: nat) = 48 + d"
proof -
  assume "d < 10"
  then have "d \<in> {0,1,2,3,4,5,6,7,8,9}" by auto
  then show ?thesis by (auto simp: digit_char_def)
qed

text \<open>\<open>digits\<close> prints the number in base ten, and without a leading zero.\<close>

lemma dec_value_digits: "dec_value (digits n) = n"
proof (induction n rule: digits.induct)
  case (1 n)
  show ?case
  proof (cases "n < 10")
    case True
    then show ?thesis by (subst digits.simps) (simp add: dec_value_def digit_char_value)
  next
    case False
    with 1 have "dec_value (digits (n div 10)) = n div 10" by simp
    with False show ?thesis
      by (subst digits.simps) (simp add: dec_value_def digit_char_value)
  qed
qed

lemma digits_no_padding: "0 < n \<Longrightarrow> hd (digits n) \<noteq> CHR ''0'' \<and> digits n \<noteq> []"
proof (induction n rule: digits.induct)
  case (1 n)
  show ?case
  proof (cases "n < 10")
    case True
    with 1(2) have "n \<in> {1,2,3,4,5,6,7,8,9}" by auto
    then show ?thesis by (subst (1 2) digits.simps) (auto simp: digit_char_def)
  next
    case False
    then have "0 < n div 10" by simp
    with 1 False have "hd (digits (n div 10)) \<noteq> CHR ''0'' \<and> digits (n div 10) \<noteq> []"
      by simp
    with False show ?thesis by (subst (1 2) digits.simps) simp
  qed
qed

subsection \<open>The test call \<^verbatim>\<open>client.Get(ctx, "/get")\<close>, evaluated\<close>

lemma parse_get:
  "url_Parse go_net (url_String go_net (url test_client) @ ''/get'') =
     Inr (twilio_v2\<lparr>Path := ''/v2/get''\<rparr>)"
  by (simp add: go_net_def test_client_def go_url_String_def twilio_v2_def go_url_Parse_def
      parse_def getScheme_def stringContainsCTLByte_def is_letter_def is_digit_def lower_def
      hasPrefix_def plain_host_def unescape_plain_def plain_char_def ishex_def Let_def)

lemma prepared_get:
  "prepared test_client ''GET'' None (twilio_v2\<lparr>Path := ''/v2/get''\<rparr>) = get_request"
  by (simp add: prepared_def test_client_def get_request_def twilio_v2_def removeEmptyPort_def
      basicAuth_def acc_def auth_def b64_def encodeStd_def)

lemma test_client_Do:
  "Do test_client (mocked f) r = (f r, \<lparr>requestInvoked = True, requestHandlerFunc = f\<rparr>)"
  by (simp add: test_client_def mock_Do_def mocked_def)

lemma Get_invoke: "Get lib client h ctx' path = invoke lib client h ctx' CallGet path"
  by (simp add: invoke_def)

lemma run_get_sent:
  "sent (invoke go_net test_client (mocked f) ctx' CallGet ''/get'') = [get_request]"
  using invoke_sent_cases [of go_net test_client "''/get''" "mocked f" ctx' CallGet]
  by (simp add: parse_get prepared_get)

subsection \<open>Classification of the response\<close>

text \<open>
  C1.  When the handler answers the request of a \<^verbatim>\<open>Get\<close>, \<^verbatim>\<open>Post\<close> or \<^verbatim>\<open>Delete\<close>
  with a response whose status code is at least 200 and below 400, and reading the body
  of the response ends without an error, the call returns exactly the bytes of the body
  and a nil error.  (Without the condition on the read the statement fails: see the
  run on the body \<open>broken\<close> below.)
\<close>

theorem success_returns_body:
  assumes "sent (invoke lib client h ctx' c path) = [req]"
    and "Do client h req = (Inr resp, h')"
    and "200 \<le> StatusCode resp" and "StatusCode resp < 400"
    and "read_error (Body resp) = None"
  shows "payload (invoke lib client h ctx' c path) = Some (pending (Body resp)) \<and>
         failure (invoke lib client h ctx' c path) = None"
proof -
  from invoke_sentD [OF assms(1)] obtain u where
    u: "url_Parse lib (url_String lib (url client) @ path) = Inr u"
    and req: "req = prepared client (method_of c) (body_of c) u"
    by blast
  show ?thesis
    using assms(2-5) by (simp add: invoke_parsed [OF u] req [symmetric])
qed

text \<open>The scenario of the tests: status 200 and the body \<^verbatim>\<open>{}\<close>.\<close>

theorem success_returns_body_witness:
  "sent (invoke go_net test_client (mocked (respond 200 braces)) Background CallGet ''/get'')
     = [get_request] \<and>
   Do test_client (mocked (respond 200 braces)) get_request
     = (Inr \<lparr>StatusCode = 200, Body = braces\<rparr>,
        \<lparr>requestInvoked = True, requestHandlerFunc = respond 200 braces\<rparr>) \<and>
   payload (invoke go_net test_client (mocked (respond 200 braces)) Background CallGet ''/get'')
     = Some ''{}'' \<and>
   failure (invoke go_net test_client (mocked (respond 200 braces)) Background CallGet ''/get'')
     = None"
  using success_returns_body [of go_net test_client "mocked (respond 200 braces)" Background
      CallGet "''/get''" get_request "\<lparr>StatusCode = 200, Body = braces\<rparr>"
      "\<lparr>requestInvoked = True, requestHandlerFunc = respond 200 braces\<rparr>"]
  by (simp add: run_get_sent test_client_Do respond_def braces_def)

text \<open>
  Status 200 with a body that breaks off after one byte: the call returns that byte
  together with the error of the read, not a nil error.
\<close>

theorem success_read_failure_counterexample:
  "sent (Get go_net test_client (mocked (respond 200 broken)) Background ''/get'')
     = [get_request] \<and>
   Do test_client (mocked (respond 200 broken)) get_request
     = (Inr \<lparr>StatusCode = 200, Body = broken\<rparr>,
        \<lparr>requestInvoked = True, requestHandlerFunc = respond 200 broken\<rparr>) \<and>
   payload (Get go_net test_client (mocked (respond 200 broken)) Background ''/get'')
     = Some ''{'' \<and>
   failure (Get go_net test_client (mocked (respond 200 broken)) Background ''/get'')
     = Some (External ''unexpected EOF'')"
  by (simp add: Get_invoke run_get_sent test_client_Do respond_def broken_def
      invoke_parsed [OF parse_get] prepared_get)

text \<open>
  C2.  When the handler answers the request of a \<^verbatim>\<open>Get\<close>, \<^verbatim>\<open>Post\<close> or \<^verbatim>\<open>Delete\<close>
  with a response of status 404, the call returns the package's value \<open>ErrNotFound\<close>
  itself and nil bytes, whatever the method and whatever the body of the response.
\<close>

theorem not_found_sentinel:
  assumes "sent (invoke lib client h ctx' c path) = [req]"
    and "Do client h req = (Inr resp, h')"
    and "StatusCode resp = 404"
  shows "failure (invoke lib client h ctx' c path) = Some ErrNotFound \<and>
         payload (invoke lib client h ctx' c path) = None"
proof -
  from invoke_sentD [OF assms(1)] obtain u where
    u: "url_Parse lib (url_String lib (url client) @ path) = Inr u"
    and req: "req = prepared client (method_of c) (body_of c) u"
    by blast
  show ?thesis
    using assms(2,3) by (simp add: invoke_parsed [OF u] req [symmetric])
qed

text \<open>The scenario of the tests: status 404.\<close>

theorem not_found_sentinel_witness:
  "sent (invoke go_net test_client (mocked (respond 404 braces)) Background CallGet ''/get'')
     = [get_request] \<and>
   Do test_client (mocked (respond 404 braces)) get_request
     = (Inr \<lparr>StatusCode = 404, Body = braces\<rparr>,
        \<lparr>requestInvoked = True, requestHandlerFunc = respond 404 braces\<rparr>) \<and>
   failure (invoke go_net test_client (mocked (respond 404 braces)) Background CallGet ''/get'')
     = Some ErrNotFound \<and>
   payload (invoke go_net test_client (mocked (respond 404 braces)) Background CallGet ''/get'')
     = None"
  using not_found_sentinel [of go_net test_client "mocked (respond 404 braces)" Background
      CallGet "''/get''" get_request "\<lparr>StatusCode = 404, Body = braces\<rparr>"
      "\<lparr>requestInvoked = True, requestHandlerFunc = respond 404 braces\<rparr>"]
  by (simp add: run_get_sent test_client_Do respond_def)

text \<open>
  C3.  When the handler answers with a response whose status code \<open>c\<close> is below 200 or
  at least 400, and is not 404, the call returns nil bytes and an error whose message
  is \<^verbatim>\<open>unexpected status code: \<close> followed by \<open>c\<close> as \<^verbatim>\<open>%d\<close> prints it (in base
  ten without padding, by \<open>dec_value_digits\<close> and \<open>digits_no_padding\<close>); the error is
  not the not-found value.
\<close>

theorem unexpected_status_message:
  assumes "sent (invoke lib client h ctx' c path) = [req]"
    and "Do client h req = (Inr resp, h')"
    and "StatusCode resp < 200 \<or> 400 \<le> StatusCode resp"
    and "StatusCode resp \<noteq> 404"
  shows "(\<exists>e. failure (invoke lib client h ctx' c path) = Some e \<and>
              Error_text e = ''unexpected status code: '' @ fmt_d (StatusCode resp) \<and>
              e \<noteq> ErrNotFound) \<and>
         payload (invoke lib client h ctx' c path) = None"
proof -
  from invoke_sentD [OF assms(1)] obtain u where
    u: "url_Parse lib (url_String lib (url client) @ path) = Inr u"
    and req: "req = prepared client (method_of c) (body_of c) u"
    by blast
  show ?thesis
    using assms(2-4) by (auto simp add: invoke_parsed [OF u] req [symmetric])
qed

text \<open>The scenario of the tests: status 500.\<close>

theorem unexpected_status_message_witness:
  "sent (invoke go_net test_client (mocked (respond 500 braces)) Background CallGet ''/get'')
     = [get_request] \<and>
   Do test_client (mocked (respond 500 braces)) get_request
     = (Inr \<lparr>StatusCode = 500, Body = braces\<rparr>,
        \<lparr>requestInvoked = True, requestHandlerFunc = respond 500 braces\<rparr>) \<and>
   (\<exists>e. failure (invoke go_net test_client (mocked (respond 500 braces)) Background CallGet
               ''/get'') = Some e \<and>
        Error_text e = ''unexpected status code: 500'' \<and> e \<noteq> ErrNotFound) \<and>
   payload (invoke go_net test_client (mocked (respond 500 braces)) Background CallGet ''/get'')
     = None"
  using unexpected_status_message [of go_net test_client "mocked (respond 500 braces)"
      Background CallGet "''/get''" get_request "\<lparr>StatusCode = 500, Body = braces\<rparr>"
      "\<lparr>requestInvoked = True, requestHandlerFunc = respond 500 braces\<rparr>"]
  by (simp add: run_get_sent test_client_Do respond_def fmt_d_def digits.simps digit_char_def)

text \<open>
  C10.  When the handler answers with a status code of at least 200 and below 400 and
  reading the body fails with the error \<open>e\<close>, the call returns \<open>e\<close> itself, neither
  wrapped nor replaced, together with the bytes that were read before the failure.
\<close>

theorem read_error_returned_raw:
  assumes "sent (invoke lib client h ctx' c path) = [req]"
    and "Do client h req = (Inr resp, h')"
    and "200 \<le> StatusCode resp" and "StatusCode resp < 400"
    and "read_error (Body resp) = Some e"
  shows "failure (invoke lib client h ctx' c path) = Some e \<and>
         payload (invoke lib client h ctx' c path) = Some (pending (Body resp))"
proof -
  from invoke_sentD [OF assms(1)] obtain u where
    u: "url_Parse lib (url_String lib (url client) @ path) = Inr u"
    and req: "req = prepared client (method_of c) (body_of c) u"
    by blast
  show ?thesis
    using assms(2-5) by (simp add: invoke_parsed [OF u] req [symmetric])
qed

text \<open>Status 200 with the body that breaks off after one byte.\<close>

theorem read_error_returned_raw_witness:
  "sent (invoke go_net test_client (mocked (respond 200 broken)) Background CallGet ''/get'')
     = [get_request] \<and>
   Do test_client (mocked (respond 200 broken)) get_request
     = (Inr \<lparr>StatusCode = 200, Body = broken\<rparr>,
        \<lparr>requestInvoked = True, requestHandlerFunc = respond 200 broken\<rparr>) \<and>
   read_error broken = Some (External ''unexpected EOF'') \<and>
   failure (invoke go_net test_client (mocked (respond 200 broken)) Background CallGet ''/get'')
     = Some (External ''unexpected EOF'') \<and>
   payload (invoke go_net test_client (mocked (respond 200 broken)) Background CallGet ''/get'')
     = Some ''{''"
  using read_error_returned_raw [of go_net test_client "mocked (respond 200 broken)" Background
      CallGet "''/get''" get_request "\<lparr>StatusCode = 200, Body = broken\<rparr>"
      "\<lparr>requestInvoked = True, requestHandlerFunc = respond 200 broken\<rparr>"
      "External ''unexpected EOF''"]
  by (simp add: run_get_sent test_client_Do respond_def broken_def)

subsection \<open>Construction\<close>

lemmas net_eval = go_net_def go_url_String_def go_url_Parse_def
      parse_def getScheme_def stringContainsCTLByte_def is_letter_def is_digit_def lower_def
      hasPrefix_def plain_host_def unescape_plain_def plain_char_def ishex_def Let_def
      url_Error_def EscapeError_def

lemma parse_baseURL: "url_Parse go_net baseURL = Inr twilio_v2"
  by (simp add: baseURL_def twilio_v2_def net_eval)

lemma parse_percent:
  "url_Parse go_net ''%'' = Inl (External (''parse %: invalid URL escape '' @ [CHR 0x22] @ ''%'' @ [CHR 0x22]))"
  by (simp add: net_eval)

lemma parse_relative: "url_Parse go_net ''/v2'' = Inr relative_v2"
  by (simp add: relative_v2_def net_eval)

lemma self_in_cause_chain: "e \<in> set (cause_chain e)"
  by (cases e) simp_all

lemma Cause_in_cause_chain: "Cause e \<in> set (cause_chain e)"
  by (induction e) simp_all

text \<open>
  C4.  \<^verbatim>\<open>NewHTTPClient\<close> fails if and only if \<^verbatim>\<open>url.Parse\<close> rejects the base URL;
  the error then wraps the error of the parser, which stays in its cause chain, and no
  client is returned.  When the parser accepts the base URL, the client holds the parsed
  URL, the two credentials and the handler, and the error is nil.  Exactly one of client
  and error is returned.  The parsed URL need not be absolute: the parser also accepts
  a URL without a scheme (see the run on \<^verbatim>\<open>/v2\<close> below).
\<close>

theorem construction_fails_iff_parse_fails:
  "(snd (NewHTTPClient lib a t b rh) \<noteq> None \<longleftrightarrow> (\<exists>err. url_Parse lib b = Inl err)) \<and>
   (fst (NewHTTPClient lib a t b rh) = None \<longleftrightarrow> snd (NewHTTPClient lib a t b rh) \<noteq> None) \<and>
   (\<forall>err. url_Parse lib b = Inl err \<longrightarrow>
      NewHTTPClient lib a t b rh = (None, Some (Wrap err ''could not parse url'')) \<and>
      err \<in> set (cause_chain (Wrap err ''could not parse url''))) \<and>
   (\<forall>u. url_Parse lib b = Inr u \<longrightarrow>
      NewHTTPClient lib a t b rh =
        (Some \<lparr>url = u, accountSID = a, authToken = t, Do = rh\<rparr>, None))"
proof (cases "url_Parse lib b")
  case (Inl err)
  then show ?thesis by (simp add: NewHTTPClient_def self_in_cause_chain)
next
  case (Inr u)
  then show ?thesis by (simp add: NewHTTPClient_def)
qed

text \<open>The two scenarios of \<^verbatim>\<open>TestNewClient\<close>: the base URL \<^verbatim>\<open>%\<close>, and the one of the tests.\<close>

theorem construction_fails_iff_parse_fails_witness:
  "url_Parse go_net ''%'' =
     Inl (External (''parse %: invalid URL escape '' @ [CHR 0x22] @ ''%'' @ [CHR 0x22])) \<and>
   NewHTTPClient go_net acc auth ''%'' mock_Do =
     (None, Some (Wrap (External (''parse %: invalid URL escape '' @ [CHR 0x22] @ ''%'' @ [CHR 0x22]))
                       ''could not parse url'')) \<and>
   url_Parse go_net baseURL = Inr twilio_v2 \<and>
   NewHTTPClient go_net acc auth baseURL mock_Do = (Some test_client, None)"
  using construction_fails_iff_parse_fails [of go_net acc auth "''%''" mock_Do]
    construction_fails_iff_parse_fails [of go_net acc auth baseURL mock_Do]
  by (simp add: parse_percent parse_baseURL test_client_def)

text \<open>
  The base URL \<^verbatim>\<open>/v2\<close> has no scheme, and construction succeeds with it: the stored
  URL is not absolute.
\<close>

theorem relative_base_url_counterexample:
  "NewHTTPClient go_net acc auth ''/v2'' mock_Do =
     (Some \<lparr>url = relative_v2, accountSID = acc, authToken = auth, Do = mock_Do\<rparr>, None) \<and>
   \<not> IsAbs relative_v2"
  by (simp add: NewHTTPClient_def parse_relative) (simp add: IsAbs_def relative_v2_def)

subsection \<open>The handler is called at most once\<close>

lemma NewRequest_fails_iff:
  "http_NewRequest lib (method_of c) target body = Inl err \<longleftrightarrow> url_Parse lib target = Inl err"
  by (simp add: NewRequest_method_of split: sum.splits)

lemma parse_get_bad:
  "url_Parse go_net (url_String go_net (url test_client) @ ''/get%2'') =
     Inl (External (''parse https://twilio.com/v2/get%2: invalid URL escape ''
                     @ [CHR 0x22] @ ''%2'' @ [CHR 0x22]))"
  by (simp add: test_client_def twilio_v2_def net_eval)

text \<open>
  C5.  A \<^verbatim>\<open>Get\<close>, \<^verbatim>\<open>Post\<close> or \<^verbatim>\<open>Delete\<close> hands at most one request to \<^verbatim>\<open>Do\<close>:
  either none, and the handler is in the state it was in, or exactly one, and the
  handler is in the state that this one \<^verbatim>\<open>Do\<close> left.  When \<^verbatim>\<open>http.NewRequest\<close>
  fails on the concatenated URL, no request is handed over, the handler is untouched,
  and the call returns nil bytes and the error of \<^verbatim>\<open>http.NewRequest\<close> wrapped as
  \<^verbatim>\<open>could not create request\<close>.
\<close>

theorem transport_at_most_once:
  "((sent (invoke lib client h ctx' c path) = [] \<and>
     handler (invoke lib client h ctx' c path) = h) \<or>
    (\<exists>req. sent (invoke lib client h ctx' c path) = [req] \<and>
           handler (invoke lib client h ctx' c path) = snd (Do client h req))) \<and>
   (\<forall>err. http_NewRequest lib (method_of c) (url_String lib (url client) @ path) (body_of c)
            = Inl err \<longrightarrow>
      sent (invoke lib client h ctx' c path) = [] \<and>
      handler (invoke lib client h ctx' c path) = h \<and>
      payload (invoke lib client h ctx' c path) = None \<and>
      failure (invoke lib client h ctx' c path) = Some (Wrap err ''could not create request''))"
proof (cases "url_Parse lib (url_String lib (url client) @ path)")
  case (Inl err)
  then show ?thesis
    by (simp add: invoke_parse_error NewRequest_fails_iff)
next
  case (Inr u)
  then show ?thesis
    by (simp add: invoke_parsed NewRequest_fails_iff Let_def split: sum.splits prod.splits)
qed

text \<open>
  The test ``unsuccessful with invalid req url err'': the path \<^verbatim>\<open>/get%2\<close>, after
  which \<^verbatim>\<open>requestInvoked\<close> is still false.
\<close>

lemma NewRequest_get_bad:
  "http_NewRequest go_net (method_of CallGet) (url_String go_net (url test_client) @ ''/get%2'')
     (body_of CallGet)
     = Inl (External (''parse https://twilio.com/v2/get%2: invalid URL escape ''
                       @ [CHR 0x22] @ ''%2'' @ [CHR 0x22]))"
  by (simp only: NewRequest_fails_iff parse_get_bad)

theorem transport_at_most_once_witness:
  "http_NewRequest go_net (method_of CallGet) (url_String go_net (url test_client) @ ''/get%2'')
     (body_of CallGet)
     = Inl (External (''parse https://twilio.com/v2/get%2: invalid URL escape ''
                       @ [CHR 0x22] @ ''%2'' @ [CHR 0x22])) \<and>
   sent (invoke go_net test_client (mocked (respond 500 braces)) Background CallGet ''/get%2'')
     = [] \<and>
   requestInvoked (handler (invoke go_net test_client (mocked (respond 500 braces)) Background
     CallGet ''/get%2'')) = False \<and>
   failure (invoke go_net test_client (mocked (respond 500 braces)) Background CallGet ''/get%2'')
     = Some (Wrap (External (''parse https://twilio.com/v2/get%2: invalid URL escape ''
                              @ [CHR 0x22] @ ''%2'' @ [CHR 0x22]))
                  ''could not create request'')"
  using transport_at_most_once [of go_net test_client "mocked (respond 500 braces)" Background
      CallGet "''/get%2''"] NewRequest_get_bad
  by (auto simp add: mocked_def)

subsection \<open>Errors of the handler\<close>

text \<open>
  C6.  When \<^verbatim>\<open>Do\<close> answers the request with the error \<open>err\<close>, the call returns nil
  bytes and an error that wraps \<open>err\<close>: its message names the URL of the request and
  ends with the message of \<open>err\<close>, its cause chain continues with the chain of \<open>err\<close>,
  so \<open>err\<close> is in it unchanged, and \<^verbatim>\<open>errors.Cause\<close> leads to the cause of \<open>err\<close>.
\<close>

theorem transport_error_wrapped:
  assumes "sent (invoke lib client h ctx' c path) = [req]"
    and "Do client h req = (Inl err, h')"
  shows "payload (invoke lib client h ctx' c path) = None \<and>
         (\<exists>w. failure (invoke lib client h ctx' c path) = Some w \<and>
              w = Wrap err (''could not get a response for '' @ url_String lib (ReqURL req)) \<and>
              cause_chain w = w # cause_chain err \<and>
              err \<in> set (cause_chain w) \<and>
              Cause w = Cause err \<and>
              Error_text w = ''could not get a response for '' @ url_String lib (ReqURL req)
                               @ '': '' @ Error_text err)"
proof -
  from invoke_sentD [OF assms(1)] obtain u where
    u: "url_Parse lib (url_String lib (url client) @ path) = Inr u"
    and req: "req = prepared client (method_of c) (body_of c) u"
    by blast
  have "invoke lib client h ctx' c path =
          \<lparr>payload = None,
           failure = Some (Wrap err (''could not get a response for ''
                                       @ url_String lib (ReqURL req))),
           handler = h', sent = [req], body_after = None\<rparr>"
    using assms(2) by (simp add: invoke_parsed [OF u] req [symmetric])
  then show ?thesis
    by (simp add: self_in_cause_chain)
qed

text \<open>The test ``unsuccessful request with err'': the cause of the result is \<open>respErr\<close>.\<close>

lemma string_get_request: "url_String go_net (ReqURL get_request) = ''https://twilio.com/v2/get''"
  by (simp add: get_request_def twilio_v2_def net_eval)

theorem transport_error_wrapped_witness:
  "sent (invoke go_net test_client (mocked refuse) Background CallGet ''/get'') = [get_request] \<and>
   Do test_client (mocked refuse) get_request
     = (Inl respErr, \<lparr>requestInvoked = True, requestHandlerFunc = refuse\<rparr>) \<and>
   payload (invoke go_net test_client (mocked refuse) Background CallGet ''/get'') = None \<and>
   failure (invoke go_net test_client (mocked refuse) Background CallGet ''/get'')
     = Some (Wrap respErr ''could not get a response for https://twilio.com/v2/get'') \<and>
   Cause (Wrap respErr ''could not get a response for https://twilio.com/v2/get'') = respErr \<and>
   Error_text (Wrap respErr ''could not get a response for https://twilio.com/v2/get'')
     = ''could not get a response for https://twilio.com/v2/get: test''"
  using transport_error_wrapped [of go_net test_client "mocked refuse" Background CallGet
      "''/get''" get_request respErr "\<lparr>requestInvoked = True, requestHandlerFunc = refuse\<rparr>"]
  by (simp add: run_get_sent test_client_Do refuse_def string_get_request respErr_def)

subsection \<open>The request that the handler receives\<close>

text \<open>
  The context that the caller passes has no influence on a call, and the request that
  reaches the handler carries the background context: \<open>request\<close> drops the copy that
  \<^verbatim>\<open>WithContext\<close> returns.
\<close>

lemma context_ignored: "invoke lib client h ctx1 c path = invoke lib client h ctx2 c path"
proof (cases "url_Parse lib (url_String lib (url client) @ path)")
  case (Inl err)
  then show ?thesis by (simp add: invoke_parse_error)
next
  case (Inr u)
  then show ?thesis by (simp add: invoke_parsed)
qed

lemma sent_context_Background:
  "sent (invoke lib client h ctx' c path) = [req] \<Longrightarrow> ctx req = Background"
  by (auto dest!: invoke_sentD simp: prepared_def)

text \<open>
  C7.  The claim asks that the context of the caller is bound to the request that the
  handler receives.  The code does not do so: for \<^verbatim>\<open>Get\<close> with a cancellable context, the
  request that reaches the handler carries the background context, and the call is the
  same as with the background context.
\<close>

theorem context_not_bound:
  "map ctx (sent (Get go_net test_client (mocked (respond 200 braces)) (WithCancel Background)
                    ''/get'')) = [Background] \<and>
   Get go_net test_client (mocked (respond 200 braces)) (WithCancel Background) ''/get''
     = Get go_net test_client (mocked (respond 200 braces)) Background ''/get''"
  by (simp add: Get_invoke run_get_sent get_request_def
      context_ignored [of _ _ _ "WithCancel Background" _ _ Background])

text \<open>
  C8.  The request that the handler receives has exactly two header entries, each with
  one value: \<^verbatim>\<open>Authorization\<close> with \<^verbatim>\<open>Basic\<close> and the base64 encoding of the stored
  account SID, a colon and the stored token, and \<^verbatim>\<open>Content-Type\<close> with
  \<^verbatim>\<open>application/x-www-form-urlencoded\<close>, whatever the method.  It has the method
  and the body of the call.  Its URL is what \<^verbatim>\<open>url.Parse\<close> makes of the
  concatenation of the stored URL, printed by \<^verbatim>\<open>String\<close>, and the path, with an
  empty port removed from the host.  (That URL need not print as the base URL string
  followed by the path: see the run on \<^verbatim>\<open>HTTPS://twilio.com:/v2\<close> below.)
\<close>

theorem request_as_sent:
  assumes "sent (invoke lib client h ctx' c path) = [req]"
  shows "ReqHeader req =
           [''Authorization'' \<mapsto> [''Basic '' @ EncodeToString (accountSID client @ '':'' @ authToken client)],
            ''Content-Type'' \<mapsto> [''application/x-www-form-urlencoded'']] \<and>
         dom (ReqHeader req) = {''Authorization'', ''Content-Type''} \<and>
         Method req = method_of c \<and> ReqBody req = body_of c \<and>
         (\<exists>u. url_Parse lib (url_String lib (url client) @ path) = Inr u \<and>
              ReqURL req = u\<lparr>Host := removeEmptyPort (Host u)\<rparr>)"
proof -
  from invoke_sentD [OF assms] obtain u where
    u: "url_Parse lib (url_String lib (url client) @ path) = Inr u"
    and req: "req = prepared client (method_of c) (body_of c) u"
    by blast
  have "dom (ReqHeader req) = {''Authorization'', ''Content-Type''}"
    by (auto simp: req prepared_def)
  then show ?thesis
    by (simp add: u) (simp add: req prepared_def basicAuth_def)
qed

text \<open>The checks of the test ``successful request'' on the request.\<close>

theorem request_as_sent_witness:
  "sent (invoke go_net test_client (mocked (respond 200 braces)) Background CallGet ''/get'')
     = [get_request] \<and>
   ReqHeader get_request ''Authorization'' = Some [''Basic YWNjOmF1dGg=''] \<and>
   ReqHeader get_request ''Content-Type'' = Some [''application/x-www-form-urlencoded''] \<and>
   dom (ReqHeader get_request) = {''Authorization'', ''Content-Type''} \<and>
   url_String go_net (ReqURL get_request) = ''https://twilio.com/v2/get''"
  using request_as_sent [of go_net test_client "mocked (respond 200 braces)" Background
      CallGet "''/get''" get_request]
  by (simp add: run_get_sent string_get_request)
     (simp add: get_request_def test_client_def acc_def auth_def b64_def encodeStd_def)

text \<open>
  A base URL with the scheme in capitals and an empty port: the stored URL prints with
  the scheme in lower case, and the URL of the request prints without the colon of the
  empty port, so it is neither the base URL string followed by \<^verbatim>\<open>/get\<close> nor the
  printed stored URL followed by \<^verbatim>\<open>/get\<close>.
\<close>

lemma parse_loud: "url_Parse go_net ''HTTPS://twilio.com:/v2'' = Inr (twilio_v2\<lparr>Host := ''twilio.com:''\<rparr>)"
  by (simp add: twilio_v2_def net_eval char_of_def bit_iff_odd)

lemma parse_loud_get:
  "url_Parse go_net (url_String go_net (url loud_client) @ ''/get'') =
     Inr (twilio_v2\<lparr>Host := ''twilio.com:'', Path := ''/v2/get''\<rparr>)"
  by (simp add: loud_client_def twilio_v2_def net_eval)

lemma string_loud: "url_String go_net (url loud_client) = ''https://twilio.com:/v2''"
  by (simp add: loud_client_def twilio_v2_def net_eval)

theorem target_url_normalised_counterexample:
  "NewHTTPClient go_net acc auth ''HTTPS://twilio.com:/v2'' mock_Do = (Some loud_client, None) \<and>
   url_String go_net (url loud_client) = ''https://twilio.com:/v2'' \<and>
   map (\<lambda>r. url_String go_net (ReqURL r))
       (sent (Get go_net loud_client (mocked (respond 200 braces)) Background ''/get''))
     = [''https://twilio.com/v2/get'']"
proof -
  have "NewHTTPClient go_net acc auth ''HTTPS://twilio.com:/v2'' mock_Do = (Some loud_client, None)"
    by (simp add: NewHTTPClient_def parse_loud loud_client_def)
  moreover have "map (\<lambda>r. url_String go_net (ReqURL r))
       (sent (Get go_net loud_client (mocked (respond 200 braces)) Background ''/get''))
     = [''https://twilio.com/v2/get'']"
    using invoke_sent_cases [of go_net loud_client "''/get''" "mocked (respond 200 braces)"
        Background CallGet]
    by (simp add: Get_invoke parse_loud_get prepared_def removeEmptyPort_def twilio_v2_def)
       (simp add: net_eval)
  ultimately show ?thesis by (simp add: string_loud)
qed

subsection \<open>The body of the response\<close>

text \<open>
  C9.  When \<^verbatim>\<open>Do\<close> answers with a response, the body of the response is closed when
  the call returns, on every path.  The body is read only when the status is at least
  200 and below 400, and then it is read to its end and returned; for every other
  status the body is closed with all its bytes unread, and no bytes are returned.  (The
  body is not drained on those paths: see the run with status 404 below.)
\<close>

theorem body_closed_read_on_success_only:
  assumes "sent (invoke lib client h ctx' c path) = [req]"
    and "Do client h req = (Inr resp, h')"
  shows "\<exists>b. body_after (invoke lib client h ctx' c path) = Some b \<and> closed b \<and>
             (if StatusCode resp < 200 \<or> 400 \<le> StatusCode resp
              then pending b = pending (Body resp) \<and>
                   payload (invoke lib client h ctx' c path) = None
              else pending b = [] \<and>
                   payload (invoke lib client h ctx' c path) = Some (pending (Body resp)))"
proof -
  from invoke_sentD [OF assms(1)] obtain u where
    u: "url_Parse lib (url_String lib (url client) @ path) = Inr u"
    and req: "req = prepared client (method_of c) (body_of c) u"
    by blast
  show ?thesis
    using assms(2) by (simp add: invoke_parsed [OF u] req [symmetric] Close_def)
qed

text \<open>Status 200: the body is read to its end and closed.\<close>

theorem body_closed_read_on_success_only_witness:
  "sent (invoke go_net test_client (mocked (respond 200 braces)) Background CallGet ''/get'')
     = [get_request] \<and>
   Do test_client (mocked (respond 200 braces)) get_request
     = (Inr \<lparr>StatusCode = 200, Body = braces\<rparr>,
        \<lparr>requestInvoked = True, requestHandlerFunc = respond 200 braces\<rparr>) \<and>
   (\<exists>b. body_after (invoke go_net test_client (mocked (respond 200 braces)) Background CallGet
                      ''/get'') = Some b \<and> closed b \<and> pending b = [])"
  using body_closed_read_on_success_only [of go_net test_client "mocked (respond 200 braces)"
      Background CallGet "''/get''" get_request "\<lparr>StatusCode = 200, Body = braces\<rparr>"
      "\<lparr>requestInvoked = True, requestHandlerFunc = respond 200 braces\<rparr>"]
  by (auto simp add: run_get_sent test_client_Do respond_def)

text \<open>Status 404 with the body \<^verbatim>\<open>{}\<close>: the body is closed with both bytes unread.\<close>

theorem body_not_drained_counterexample:
  "sent (Get go_net test_client (mocked (respond 404 braces)) Background ''/get'')
     = [get_request] \<and>
   Do test_client (mocked (respond 404 braces)) get_request
     = (Inr \<lparr>StatusCode = 404, Body = braces\<rparr>,
        \<lparr>requestInvoked = True, requestHandlerFunc = respond 404 braces\<rparr>) \<and>
   body_after (Get go_net test_client (mocked (respond 404 braces)) Background ''/get'')
     = Some \<lparr>pending = ''{}'', read_error = None, closed = True\<rparr>"
  by (simp add: Get_invoke run_get_sent test_client_Do respond_def braces_def
      invoke_parsed [OF parse_get] prepared_get Close_def)

end
